theory Spec2Isabelle
  imports Main
begin

section \<open>Model-provider selectors of the global store\<close>

text \<open>
  A shallow embedding of \<^verbatim>\<open>src/store/global/slices/settings/selectors/modelProvider.ts\<close>.
  Every selector of the file is a curried arrow function \<^verbatim>\<open>(arg) => (s: GlobalStore) => ...\<close>
  built from property reads, optional chaining, \<^verbatim>\<open>||\<close>, \<^verbatim>\<open>??\<close>, object spread and the
  non-mutating array methods \<^verbatim>\<open>map\<close>, \<^verbatim>\<open>filter\<close>, \<^verbatim>\<open>flatMap\<close>, \<^verbatim>\<open>find\<close>, \<^verbatim>\<open>some\<close>.
  A property typed \<^verbatim>\<open>T | undefined\<close> is a \<open>T option\<close> (\<open>None\<close> is \<^verbatim>\<open>undefined\<close>), an object
  indexed by provider key is a map, an array is a list.
\<close>

subsection \<open>Data\<close>

text \<open>
  \<^verbatim>\<open>ChatModelCard\<close> (\<^verbatim>\<open>@/types/llm\<close>): the properties the selectors read or write, and
  \<^verbatim>\<open>displayName\<close> as a representative of the descriptive properties that the object
  spread copies unchanged. \<^verbatim>\<open>id\<close> is the only required property.
\<close>

record ChatModelCard =
  displayName :: "string option"
  enabled :: "bool option"
  files :: "bool option"
  functionCall :: "bool option"
  id' :: string
  isCustom :: "bool option"
  tokens :: "int option"
  vision :: "bool option"

text \<open>\<^verbatim>\<open>ModelProviderCard\<close> (\<^verbatim>\<open>@/types/llm\<close>).\<close>

record ModelProviderCard =
  chatModels :: "ChatModelCard list"
  enabled :: "bool option"
  id' :: string

text \<open>\<^verbatim>\<open>ServerModelProviderConfig\<close> (\<^verbatim>\<open>@/types/serverConfig\<close>).\<close>

record ServerModelProviderConfig =
  serverModelCards :: "ChatModelCard list option"

text \<open>
  The per-provider entry of the user settings (\<^verbatim>\<open>@/types/settings\<close>), as the selectors
  read it.
\<close>

record GeneralModelProviderConfig =
  customModelCards :: "ChatModelCard list option"
  enabled :: "bool option"
  enabledModels :: "string list option"
  remoteModelCards :: "ChatModelCard list option"

record GlobalServerConfig =
  languageModel :: "(string \<rightharpoonup> ServerModelProviderConfig) option"

record GlobalSettings =
  languageModel :: "(string \<rightharpoonup> GeneralModelProviderConfig) option"

text \<open>
  \<^verbatim>\<open>GlobalStore\<close>: the selectors read \<^verbatim>\<open>s.serverConfig\<close> directly; everything else of the
  store is the extension part of the record scheme (\<open>settings\<close> is the persisted
  user-settings slice, which the file reaches only through \<^verbatim>\<open>currentSettings\<close> and
  \<^verbatim>\<open>getProviderConfigById\<close>).
\<close>

record GlobalStore =
  serverConfig :: GlobalServerConfig
  settings :: GlobalSettings

text \<open>
  What the file imports and does not define: the fourteen provider cards and
  \<^verbatim>\<open>filterEnabledModels\<close> of \<^verbatim>\<open>@/config/modelProviders\<close>, and \<^verbatim>\<open>currentSettings\<close> and
  \<^verbatim>\<open>getProviderConfigById\<close> of \<^verbatim>\<open>./settings\<close>. They are parameters of the model: every
  theorem holds for any catalogue and any settings helpers.
\<close>

record 's Imports =
  OpenAIProviderCard :: ModelProviderCard
  AzureProviderCard :: ModelProviderCard
  OllamaProviderCard :: ModelProviderCard
  AnthropicProviderCard :: ModelProviderCard
  GoogleProviderCard :: ModelProviderCard
  OpenRouterProviderCard :: ModelProviderCard
  TogetherAIProviderCard :: ModelProviderCard
  BedrockProviderCard :: ModelProviderCard
  PerplexityProviderCard :: ModelProviderCard
  MistralProviderCard :: ModelProviderCard
  GroqProviderCard :: ModelProviderCard
  MoonshotProviderCard :: ModelProviderCard
  ZeroOneProviderCard :: ModelProviderCard
  ZhiPuProviderCard :: ModelProviderCard
  filterEnabledModels :: "ModelProviderCard \<Rightarrow> string list"
  currentSettings :: "'s \<Rightarrow> GlobalSettings"
  getProviderConfigById :: "string \<Rightarrow> 's \<Rightarrow> GeneralModelProviderConfig option"

subsection \<open>JavaScript operators and library calls\<close>

text \<open>\<^verbatim>\<open>x || b\<close> for \<^verbatim>\<open>x: boolean | undefined\<close> and \<^verbatim>\<open>b: boolean\<close>: \<^verbatim>\<open>x\<close> when it is truthy, else \<^verbatim>\<open>b\<close>.\<close>

definition orBool :: "bool option \<Rightarrow> bool \<Rightarrow> bool" where
  "orBool x b = (case x of Some True \<Rightarrow> True | _ \<Rightarrow> b)"

text \<open>\<^verbatim>\<open>x || []\<close> for an optional array: every array, also the empty one, is truthy.\<close>

definition orEmpty :: "'a list option \<Rightarrow> 'a list" where
  "orEmpty x = (case x of Some xs \<Rightarrow> xs | None \<Rightarrow> [])"

text \<open>\<^verbatim>\<open>x || 0\<close> for an optional number: \<^verbatim>\<open>undefined\<close> and \<^verbatim>\<open>0\<close> are falsy.\<close>

definition orZero :: "int option \<Rightarrow> int" where
  "orZero x = (case x of Some n \<Rightarrow> (if n = 0 then 0 else n) | None \<Rightarrow> 0)"

text \<open>\<^verbatim>\<open>a ?? b\<close>: \<^verbatim>\<open>a\<close> unless it is \<^verbatim>\<open>undefined\<close>.\<close>

definition nullish :: "'a option \<Rightarrow> 'a \<Rightarrow> 'a" where
  "nullish a b = (case a of Some v \<Rightarrow> v | None \<Rightarrow> b)"

text \<open>Truthiness of an optional boolean, as \<^verbatim>\<open>filter((x) => x.enabled)\<close> tests it.\<close>

definition truthy :: "bool option \<Rightarrow> bool" where
  "truthy x = (x = Some True)"

text \<open>
  \<^verbatim>\<open>String.prototype.includes\<close>: the argument occurs as a contiguous substring.
\<close>

fun startsWith :: "string \<Rightarrow> string \<Rightarrow> bool" where
  "startsWith s [] = True"
| "startsWith [] (c # cs) = False"
| "startsWith (d # ds) (c # cs) = (d = c \<and> startsWith ds cs)"

fun includes' :: "string \<Rightarrow> string \<Rightarrow> bool" where
  "includes' [] sub = startsWith [] sub"
| "includes' (d # ds) sub = (startsWith (d # ds) sub \<or> includes' ds sub)"

text \<open>
  lodash \<^verbatim>\<open>uniqBy(array, iteratee)\<close>: one pass that keeps a value when the iteratee's result
  on it has not been seen before, so the first occurrence of each key survives, in order.
\<close>

fun uniqLoop :: "('a \<Rightarrow> 'k) \<Rightarrow> 'k list \<Rightarrow> 'a list \<Rightarrow> 'a list" where
  "uniqLoop f seen [] = []"
| "uniqLoop f seen (x # xs) =
     (if f x \<in> set seen then uniqLoop f seen xs
      else x # uniqLoop f (seen @ [f x]) xs)"

definition uniqBy :: "'a list \<Rightarrow> ('a \<Rightarrow> 'k) \<Rightarrow> 'a list" where
  "uniqBy array f = uniqLoop f [] array"

subsection \<open>Server-side and remote model cards\<close>

definition serverProviderModelCards ::
  "string \<Rightarrow> 'z GlobalStore_scheme \<Rightarrow> ChatModelCard list option" where
  "serverProviderModelCards provider s =
     (case Option.bind (GlobalServerConfig.languageModel (serverConfig s)) (\<lambda>lm. lm provider) of
        None \<Rightarrow> None
      | Some config \<Rightarrow> serverModelCards config)"

definition remoteProviderModelCards ::
  "('z GlobalStore_scheme) Imports \<Rightarrow> string \<Rightarrow> 'z GlobalStore_scheme
     \<Rightarrow> ChatModelCard list option" where
  "remoteProviderModelCards I provider s =
     (case Option.bind
             (Option.bind (GlobalSettings.languageModel (currentSettings I s)) (\<lambda>lm. lm provider))
             remoteModelCards of
        None \<Rightarrow> None
      | Some cards \<Rightarrow> Some cards)"

definition isProviderEnabled ::
  "('z GlobalStore_scheme) Imports \<Rightarrow> string \<Rightarrow> 'z GlobalStore_scheme \<Rightarrow> bool" where
  "isProviderEnabled I provider s =
     orBool (Option.bind (getProviderConfigById I provider s) GeneralModelProviderConfig.enabled)
       False"

subsection \<open>Default model provider list\<close>

definition mergeModels ::
  "('z GlobalStore_scheme) Imports \<Rightarrow> 'z GlobalStore_scheme \<Rightarrow> string \<Rightarrow> ChatModelCard list
     \<Rightarrow> ChatModelCard list" where
  "mergeModels I s provider defaultChatModels =
     (let serverChatModels = serverProviderModelCards provider s;
          remoteChatModels = remoteProviderModelCards I provider s
      in nullish serverChatModels (nullish remoteChatModels defaultChatModels))"

definition defaultModelProviderList ::
  "('z GlobalStore_scheme) Imports \<Rightarrow> 'z GlobalStore_scheme \<Rightarrow> ModelProviderCard list" where
  "defaultModelProviderList I s =
     [ (OpenAIProviderCard I)
         \<lparr>chatModels := mergeModels I s ''openai'' (chatModels (OpenAIProviderCard I))\<rparr>,
       (AzureProviderCard I)\<lparr>chatModels := mergeModels I s ''azure'' []\<rparr>,
       (OllamaProviderCard I)
         \<lparr>chatModels := mergeModels I s ''ollama'' (chatModels (OllamaProviderCard I))\<rparr>,
       AnthropicProviderCard I,
       GoogleProviderCard I,
       (OpenRouterProviderCard I)
         \<lparr>chatModels := mergeModels I s ''openrouter'' (chatModels (OpenRouterProviderCard I))\<rparr>,
       (TogetherAIProviderCard I)
         \<lparr>chatModels := mergeModels I s ''togetherai'' (chatModels (TogetherAIProviderCard I))\<rparr>,
       BedrockProviderCard I,
       PerplexityProviderCard I,
       MistralProviderCard I,
       GroqProviderCard I,
       MoonshotProviderCard I,
       ZeroOneProviderCard I,
       ZhiPuProviderCard I ]"

definition getDefaultModeProviderById ::
  "('z GlobalStore_scheme) Imports \<Rightarrow> string \<Rightarrow> 'z GlobalStore_scheme
     \<Rightarrow> ModelProviderCard option" where
  "getDefaultModeProviderById I provider s =
     find (\<lambda>c. ModelProviderCard.id' c = provider) (defaultModelProviderList I s)"

definition getDefaultEnabledModelsById ::
  "('z GlobalStore_scheme) Imports \<Rightarrow> string \<Rightarrow> 'z GlobalStore_scheme \<Rightarrow> string list option" where
  "getDefaultEnabledModelsById I provider s =
     (case getDefaultModeProviderById I provider s of
        Some modelProvider \<Rightarrow> Some (filterEnabledModels I modelProvider)
      | None \<Rightarrow> None)"

definition getDefaultModelCardById ::
  "('z GlobalStore_scheme) Imports \<Rightarrow> string \<Rightarrow> 'z GlobalStore_scheme \<Rightarrow> ChatModelCard option" where
  "getDefaultModelCardById I i s =
     (let list = defaultModelProviderList I s
      in find (\<lambda>m. ChatModelCard.id' m = i) (concat (map chatModels list)))"

subsection \<open>Model provider list\<close>

definition getModelCardsById ::
  "('z GlobalStore_scheme) Imports \<Rightarrow> string \<Rightarrow> 'z GlobalStore_scheme \<Rightarrow> ChatModelCard list" where
  "getModelCardsById I provider s =
     (let builtinCards = orEmpty (map_option chatModels (getDefaultModeProviderById I provider s));
          userCards =
            map (\<lambda>model. model\<lparr>isCustom := Some True\<rparr>)
              (orEmpty (Option.bind (getProviderConfigById I provider s) customModelCards))
      in uniqBy (userCards @ builtinCards) ChatModelCard.id')"

definition getEnableModelsById ::
  "('z GlobalStore_scheme) Imports \<Rightarrow> string \<Rightarrow> 'z GlobalStore_scheme \<Rightarrow> string list option" where
  "getEnableModelsById I provider s =
     (case Option.bind (getProviderConfigById I provider s) enabledModels of
        None \<Rightarrow> None
      | Some ms \<Rightarrow> Some (filter (\<lambda>m. m \<noteq> []) ms))"

definition modelProviderList ::
  "('z GlobalStore_scheme) Imports \<Rightarrow> 'z GlobalStore_scheme \<Rightarrow> ModelProviderCard list" where
  "modelProviderList I s =
     map (\<lambda>list. list
            \<lparr>chatModels :=
               map (\<lambda>model.
                      case getEnableModelsById I (ModelProviderCard.id' list) s of
                        None \<Rightarrow> model
                      | Some models \<Rightarrow>
                          model\<lparr>ChatModelCard.enabled :=
                                  Some (list_ex (\<lambda>m. m = ChatModelCard.id' model) models)\<rparr>)
                 (getModelCardsById I (ModelProviderCard.id' list) s),
             ModelProviderCard.enabled :=
               Some (isProviderEnabled I (ModelProviderCard.id' list) s)\<rparr>)
       (defaultModelProviderList I s)"

definition modelProviderListForModelSelect ::
  "('z GlobalStore_scheme) Imports \<Rightarrow> 'z GlobalStore_scheme \<Rightarrow> ModelProviderCard list" where
  "modelProviderListForModelSelect I s =
     map (\<lambda>provider. provider
            \<lparr>chatModels :=
               filter (\<lambda>model. truthy (ChatModelCard.enabled model)) (chatModels provider)\<rparr>)
       (filter (\<lambda>p. truthy (ModelProviderCard.enabled p)) (modelProviderList I s))"

definition getModelCardById ::
  "('z GlobalStore_scheme) Imports \<Rightarrow> string \<Rightarrow> 'z GlobalStore_scheme \<Rightarrow> ChatModelCard option" where
  "getModelCardById I i s =
     (let list = modelProviderList I s
      in find (\<lambda>m. ChatModelCard.id' m = i) (concat (map chatModels list)))"

subsection \<open>Capabilities of a model\<close>

definition isModelEnabledFunctionCall ::
  "('z GlobalStore_scheme) Imports \<Rightarrow> string \<Rightarrow> 'z GlobalStore_scheme \<Rightarrow> bool" where
  "isModelEnabledFunctionCall I i s =
     orBool (Option.bind (getModelCardById I i s) functionCall) False"

definition isModelEnabledVision ::
  "('z GlobalStore_scheme) Imports \<Rightarrow> string \<Rightarrow> 'z GlobalStore_scheme \<Rightarrow> bool" where
  "isModelEnabledVision I i s =
     orBool (Option.bind (getModelCardById I i s) vision) (includes' i ''vision'')"

definition isModelEnabledFiles ::
  "('z GlobalStore_scheme) Imports \<Rightarrow> string \<Rightarrow> 'z GlobalStore_scheme \<Rightarrow> bool option" where
  "isModelEnabledFiles I i s = Option.bind (getModelCardById I i s) files"

text \<open>
  \<^verbatim>\<open>isModelEnabledVision(id)(s) || isModelEnabledFiles(id)(s)\<close>: the left operand is a
  boolean; when it is \<^verbatim>\<open>false\<close> the result is the right operand, which may be \<^verbatim>\<open>undefined\<close>.
\<close>

definition isModelEnabledUpload ::
  "('z GlobalStore_scheme) Imports \<Rightarrow> string \<Rightarrow> 'z GlobalStore_scheme \<Rightarrow> bool option" where
  "isModelEnabledUpload I i s =
     (if isModelEnabledVision I i s then Some True else isModelEnabledFiles I i s)"

definition isModelHasMaxToken ::
  "('z GlobalStore_scheme) Imports \<Rightarrow> string \<Rightarrow> 'z GlobalStore_scheme \<Rightarrow> bool" where
  "isModelHasMaxToken I i s = (Option.bind (getModelCardById I i s) tokens \<noteq> None)"

definition modelMaxToken ::
  "('z GlobalStore_scheme) Imports \<Rightarrow> string \<Rightarrow> 'z GlobalStore_scheme \<Rightarrow> int" where
  "modelMaxToken I i s = orZero (Option.bind (getModelCardById I i s) tokens)"

subsection \<open>The selectors with the failure of a property read made explicit\<close>

text \<open>
  The only way a selector of this file can fail is a \<^verbatim>\<open>TypeError\<close>: reading a property of
  \<^verbatim>\<open>undefined\<close>. The definitions above follow the types, in which \<^verbatim>\<open>s.serverConfig\<close> is always
  an object. Here the selectors are given once more with a result \<open>error + value\<close>:
  \<open>readProp x f\<close> is the plain read \<^verbatim>\<open>x.f\<close>, which raises when \<^verbatim>\<open>x\<close> is \<^verbatim>\<open>undefined\<close>, while
  \<^verbatim>\<open>x?.f\<close> stays \<open>Option.bind\<close>. The source reads two values that may be \<^verbatim>\<open>undefined\<close>
  with a plain \<^verbatim>\<open>.\<close>: \<^verbatim>\<open>s.serverConfig.languageModel\<close> (line 33) and \<^verbatim>\<open>config.serverModelCards\<close>
  (line 39, after the guard \<^verbatim>\<open>if (!config) return\<close>). What the read \<^verbatim>\<open>s.serverConfig\<close> yields at
  run time is the parameter \<open>rd\<close>: \<open>readServerConfig\<close> for a store that has the property,
  \<open>missingServerConfig\<close> for a store object without it. A selector that calls another one
  fails when the callee fails (\<open>bindE\<close>), and \<^verbatim>\<open>Array.prototype.map\<close> fails with the first
  failing callback (\<open>mapE\<close>). \<^verbatim>\<open>remoteProviderModelCards\<close>, \<^verbatim>\<open>isProviderEnabled\<close> and
  \<^verbatim>\<open>getEnableModelsById\<close> contain no plain read of an optional value and call no selector
  that does; they are used as defined above.
\<close>

datatype error = TypeError


definition bindE :: "error + 'a \<Rightarrow> ('a \<Rightarrow> error + 'b) \<Rightarrow> error + 'b" where
  "bindE m f = (case m of Inl e \<Rightarrow> Inl e | Inr v \<Rightarrow> f v)"




















subsection \<open>An example catalogue and store\<close>

text \<open>
  A small concrete instance, used to evaluate the selectors: a catalogue whose fourteen
  cards carry the provider keys as ids, settings helpers that read the \<open>settings\<close> slice
  of the store, and a store in which the server configures model cards for Anthropic and
  the user has customised OpenAI.
\<close>

definition card :: "string \<Rightarrow> ChatModelCard" where
  "card i =
     \<lparr>displayName = None, ChatModelCard.enabled = None, files = None, functionCall = None,
      ChatModelCard.id' = i, isCustom = None, tokens = None, vision = None\<rparr>"

definition providerCard :: "string \<Rightarrow> ChatModelCard list \<Rightarrow> ModelProviderCard" where
  "providerCard i ms =
     \<lparr>chatModels = ms, ModelProviderCard.enabled = None, ModelProviderCard.id' = i\<rparr>"

definition exampleImports :: "('z GlobalStore_scheme) Imports" where
  "exampleImports =
     \<lparr>OpenAIProviderCard =
        providerCard ''openai''
          [(card ''gpt-3.5-turbo'')
             \<lparr>ChatModelCard.enabled := Some True, functionCall := Some True,
              tokens := Some 16385\<rparr>,
           (card ''gpt-4'')\<lparr>functionCall := Some True, tokens := Some 8192\<rparr>],
      AzureProviderCard = providerCard ''azure'' [card ''gpt-35-turbo''],
      OllamaProviderCard = providerCard ''ollama'' [card ''llama2''],
      AnthropicProviderCard =
        providerCard ''anthropic'' [(card ''claude-3-opus'')\<lparr>vision := Some True\<rparr>],
      GoogleProviderCard = providerCard ''google'' [card ''gemini-pro''],
      OpenRouterProviderCard = providerCard ''openrouter'' [],
      TogetherAIProviderCard = providerCard ''togetherai'' [],
      BedrockProviderCard = providerCard ''bedrock'' [],
      PerplexityProviderCard = providerCard ''perplexity'' [],
      MistralProviderCard = providerCard ''mistral'' [],
      GroqProviderCard = providerCard ''groq'' [],
      MoonshotProviderCard = providerCard ''moonshot'' [],
      ZeroOneProviderCard = providerCard ''zeroone'' [],
      ZhiPuProviderCard = providerCard ''zhipu'' [],
      filterEnabledModels =
        (\<lambda>p. map ChatModelCard.id'
               (filter (\<lambda>m. truthy (ChatModelCard.enabled m)) (chatModels p))),
      currentSettings = settings,
      getProviderConfigById =
        (\<lambda>provider s.
           Option.bind (GlobalSettings.languageModel (settings s)) (\<lambda>lm. lm provider))\<rparr>"

definition exampleStore :: GlobalStore where
  "exampleStore =
     \<lparr>serverConfig =
        \<lparr>GlobalServerConfig.languageModel =
           Some [''anthropic'' \<mapsto> \<lparr>serverModelCards = Some [card ''claude-from-server'']\<rparr>]\<rparr>,
      settings =
        \<lparr>GlobalSettings.languageModel =
           Some [''openai'' \<mapsto>
                   \<lparr>customModelCards =
                      Some [(card ''gpt-4'')\<lparr>displayName := Some ''my gpt-4''\<rparr>,
                            card ''my-model''],
                    GeneralModelProviderConfig.enabled = Some True,
                    enabledModels = Some [''gpt-4'', [], ''my-model''],
                    remoteModelCards = None\<rparr>]\<rparr>\<rparr>"

text \<open>The example store with a further slice \<open>z\<close> beside the two the selectors read.\<close>

definition exampleStoreWith :: "'z \<Rightarrow> 'z GlobalStore_scheme" where
  "exampleStoreWith z =
     \<lparr>serverConfig = serverConfig exampleStore, settings = settings exampleStore, \<dots> = z\<rparr>"


section \<open>Properties\<close>

lemmas example_defs =
  modelProviderListForModelSelect_def truthy_def modelProviderList_def
  defaultModelProviderList_def exampleImports_def exampleStore_def getModelCardsById_def
  getDefaultModeProviderById_def uniqBy_def getEnableModelsById_def isProviderEnabled_def
  mergeModels_def nullish_def orBool_def orEmpty_def serverProviderModelCards_def
  remoteProviderModelCards_def providerCard_def card_def getModelCardById_def

subsection \<open>De-duplication by key\<close>


lemma uniqLoop_keys: "f ` set (uniqLoop f seen xs) = f ` set xs - set seen"
  by (induction xs arbitrary: seen) auto

lemma uniqLoop_distinct: "distinct (map f (uniqLoop f seen xs))"
  by (induction xs arbitrary: seen) (auto simp: uniqLoop_keys)





lemma uniqBy_distinct: "distinct (map f (uniqBy xs f))"
  by (simp add: uniqBy_def uniqLoop_distinct)




subsection \<open>Substrings\<close>

lemma startsWith_iff: "startsWith s sub \<longleftrightarrow> (\<exists>post. s = sub @ post)"
  by (induction s sub rule: startsWith.induct) auto

lemma includes'_iff: "includes' s sub \<longleftrightarrow> (\<exists>pre post. s = pre @ sub @ post)"
proof (induction s)
  case Nil
  show ?case by (auto simp: startsWith_iff)
next
  case (Cons d ds)
  show ?case
  proof
    assume "includes' (d # ds) sub"
    then consider "startsWith (d # ds) sub" | "includes' ds sub" by auto
    then show "\<exists>pre post. d # ds = pre @ sub @ post"
    proof cases
      case 1
      then obtain post where "d # ds = sub @ post" by (auto simp: startsWith_iff)
      then have "d # ds = [] @ sub @ post" by simp
      then show ?thesis by blast
    next
      case 2
      then obtain pre post where "ds = pre @ sub @ post" using Cons.IH by auto
      then have "d # ds = (d # pre) @ sub @ post" by simp
      then show ?thesis by blast
    qed
  next
    assume "\<exists>pre post. d # ds = pre @ sub @ post"
    then obtain pre post where e: "d # ds = pre @ sub @ post" by auto
    show "includes' (d # ds) sub"
    proof (cases pre)
      case Nil
      with e have "startsWith (d # ds) sub" by (auto simp: startsWith_iff)
      then show ?thesis by simp
    next
      case (Cons p ps)
      with e have "ds = ps @ sub @ post" by simp
      then have "includes' ds sub" using Cons.IH by auto
      then show ?thesis by simp
    qed
  qed
qed

subsection \<open>Merging of model cards\<close>

text \<open>
  C1 (as amended): \<^verbatim>\<open>mergeModels\<close> is applied to five entries of the provider list only, those
  built with the keys \<^verbatim>\<open>openai\<close>, \<^verbatim>\<open>azure\<close>, \<^verbatim>\<open>ollama\<close>, \<^verbatim>\<open>openrouter\<close> and \<^verbatim>\<open>togetherai\<close>.
  For these, \<^verbatim>\<open>chatModels\<close> are the server-supplied cards when present, otherwise the
  remote-fetched cards when present, otherwise the built-in cards of the provider (the
  empty list for Azure). The other nine providers carry the \<^verbatim>\<open>chatModels\<close> of their
  built-in card whatever the server or the remote configuration says.
\<close>

theorem defaultModelProviderList_chatModels:
  "map chatModels (defaultModelProviderList I s) =
     (let merged = (\<lambda>provider builtin.
            case serverProviderModelCards provider s of
              Some serverCards \<Rightarrow> serverCards
            | None \<Rightarrow> (case remoteProviderModelCards I provider s of
                         Some remoteCards \<Rightarrow> remoteCards
                       | None \<Rightarrow> builtin))
      in [merged ''openai'' (chatModels (OpenAIProviderCard I)),
          merged ''azure'' [],
          merged ''ollama'' (chatModels (OllamaProviderCard I)),
          chatModels (AnthropicProviderCard I),
          chatModels (GoogleProviderCard I),
          merged ''openrouter'' (chatModels (OpenRouterProviderCard I)),
          merged ''togetherai'' (chatModels (TogetherAIProviderCard I)),
          chatModels (BedrockProviderCard I),
          chatModels (PerplexityProviderCard I),
          chatModels (MistralProviderCard I),
          chatModels (GroqProviderCard I),
          chatModels (MoonshotProviderCard I),
          chatModels (ZeroOneProviderCard I),
          chatModels (ZhiPuProviderCard I)])"
  by (simp add: defaultModelProviderList_def mergeModels_def nullish_def Let_def)

text \<open>
  C1 as the specification states it fails: in the example store the server supplies
  model cards for \<^verbatim>\<open>anthropic\<close>, and the Anthropic entry of the provider list still
  carries its built-in card, not the server's.
\<close>

theorem mergeModels_skips_anthropic:
  "ModelProviderCard.id' (defaultModelProviderList exampleImports exampleStore ! 3) = ''anthropic''
   \<and> serverProviderModelCards ''anthropic'' exampleStore = Some [card ''claude-from-server'']
   \<and> chatModels (defaultModelProviderList exampleImports exampleStore ! 3)
       = [(card ''claude-3-opus'')\<lparr>vision := Some True\<rparr>]
   \<and> chatModels (defaultModelProviderList exampleImports exampleStore ! 3)
       \<noteq> [card ''claude-from-server'']"
  by (simp add: defaultModelProviderList_def exampleImports_def exampleStore_def
      serverProviderModelCards_def providerCard_def card_def)

subsection \<open>Model cards of a provider\<close>

text \<open>
  C2: for every store state and every provider id, the cards returned by
  \<^verbatim>\<open>getModelCardsById\<close> have pairwise distinct ids.
\<close>

theorem getModelCardsById_distinct_ids:
  "distinct (map ChatModelCard.id' (getModelCardsById I provider s))"
  by (simp add: getModelCardsById_def uniqBy_distinct)








subsection \<open>Enabled models and the provider list\<close>

text \<open>
  C10: for every store state and every provider of the list: if the provider's config
  defines no \<^verbatim>\<open>enabledModels\<close>, \<^verbatim>\<open>modelProviderList\<close> gives the provider the cards of
  \<^verbatim>\<open>getModelCardsById\<close> with their \<^verbatim>\<open>enabled\<close> flags untouched; if \<^verbatim>\<open>enabledModels\<close> is
  defined, each card's \<^verbatim>\<open>enabled\<close> flag is true iff its id occurs in that list once the
  falsy (empty) entries are dropped. The providers are those of the default list, in
  the same order.
\<close>

theorem modelProviderList_enabled_flags:
  "map chatModels (modelProviderList I s) =
     map (\<lambda>d. case Option.bind (getProviderConfigById I (ModelProviderCard.id' d) s) enabledModels of
                 None \<Rightarrow> getModelCardsById I (ModelProviderCard.id' d) s
               | Some ems \<Rightarrow>
                   map (\<lambda>m. m\<lparr>ChatModelCard.enabled :=
                                Some (ChatModelCard.id' m \<in> set (filter (\<lambda>e. e \<noteq> []) ems))\<rparr>)
                     (getModelCardsById I (ModelProviderCard.id' d) s))
       (defaultModelProviderList I s)
   \<and> map ModelProviderCard.id' (modelProviderList I s)
       = map ModelProviderCard.id' (defaultModelProviderList I s)"
  by (auto simp: modelProviderList_def getEnableModelsById_def list_ex_iff split: option.splits)

text \<open>
  C3: \<^verbatim>\<open>modelProviderListForModelSelect\<close> returns exactly the providers of
  \<^verbatim>\<open>modelProviderList\<close> whose \<^verbatim>\<open>enabled\<close> flag is true, in their order, each with exactly
  those of its model cards whose \<^verbatim>\<open>enabled\<close> flag is true; so every returned provider and
  every returned model card is enabled.
\<close>

theorem modelProviderListForModelSelect_exact:
  "modelProviderListForModelSelect I s =
     map (\<lambda>p. p\<lparr>chatModels := filter (\<lambda>m. ChatModelCard.enabled m = Some True) (chatModels p)\<rparr>)
       (filter (\<lambda>p. ModelProviderCard.enabled p = Some True) (modelProviderList I s))
   \<and> (\<forall>p \<in> set (modelProviderListForModelSelect I s).
         ModelProviderCard.enabled p = Some True
         \<and> (\<forall>m \<in> set (chatModels p). ChatModelCard.enabled m = Some True))"
  by (auto simp: modelProviderListForModelSelect_def truthy_def)

theorem modelProviderListForModelSelect_exact_witness:
  "map ModelProviderCard.id' (modelProviderList exampleImports exampleStore)
     = [''openai'', ''azure'', ''ollama'', ''anthropic'', ''google'', ''openrouter'',
        ''togetherai'', ''bedrock'', ''perplexity'', ''mistral'', ''groq'', ''moonshot'',
        ''zeroone'', ''zhipu'']
   \<and> map ModelProviderCard.id' (modelProviderListForModelSelect exampleImports exampleStore)
     = [''openai'']
   \<and> map ChatModelCard.id' (chatModels (hd (modelProviderList exampleImports exampleStore)))
     = [''gpt-4'', ''my-model'', ''gpt-3.5-turbo'']
   \<and> map ChatModelCard.id'
         (chatModels (hd (modelProviderListForModelSelect exampleImports exampleStore)))
     = [''gpt-4'', ''my-model'']
   \<and> ModelProviderCard.enabled (hd (modelProviderListForModelSelect exampleImports exampleStore))
     = Some True"
proof -
  have a: "map ModelProviderCard.id' (modelProviderList exampleImports exampleStore)
     = [''openai'', ''azure'', ''ollama'', ''anthropic'', ''google'', ''openrouter'',
        ''togetherai'', ''bedrock'', ''perplexity'', ''mistral'', ''groq'', ''moonshot'',
        ''zeroone'', ''zhipu'']"
    by (simp add: example_defs)
  have b: "map ModelProviderCard.id' (modelProviderListForModelSelect exampleImports exampleStore)
     = [''openai'']"
    by (simp add: example_defs)
  have c: "map ChatModelCard.id' (chatModels (hd (modelProviderList exampleImports exampleStore)))
     = [''gpt-4'', ''my-model'', ''gpt-3.5-turbo'']"
    by (simp add: example_defs)
  have d: "map ChatModelCard.id'
         (chatModels (hd (modelProviderListForModelSelect exampleImports exampleStore)))
     = [''gpt-4'', ''my-model'']"
    by (simp add: example_defs)
  have "modelProviderListForModelSelect exampleImports exampleStore \<noteq> []"
    using b by auto
  then have "hd (modelProviderListForModelSelect exampleImports exampleStore)
               \<in> set (modelProviderListForModelSelect exampleImports exampleStore)"
    by simp
  then have e: "ModelProviderCard.enabled
                  (hd (modelProviderListForModelSelect exampleImports exampleStore)) = Some True"
    using modelProviderListForModelSelect_exact [of exampleImports exampleStore] by blast
  show ?thesis using a b c d e by simp
qed

subsection \<open>Capabilities\<close>

text \<open>
  C7: the capability selectors report the capabilities of the card that
  \<^verbatim>\<open>getModelCardById\<close> finds. \<^verbatim>\<open>isModelEnabledFunctionCall\<close> is true iff that card has
  \<^verbatim>\<open>functionCall\<close> true, and false when no card is found; \<^verbatim>\<open>isModelHasMaxToken\<close> is true iff
  the card defines \<^verbatim>\<open>tokens\<close>; \<^verbatim>\<open>modelMaxToken\<close> is that token limit, and 0 when it is
  undefined or the card is absent.
\<close>

theorem capability_selectors_report_card:
  "isModelEnabledFunctionCall I i s =
     (case getModelCardById I i s of None \<Rightarrow> False | Some c \<Rightarrow> functionCall c = Some True)
   \<and> isModelHasMaxToken I i s =
     (case getModelCardById I i s of None \<Rightarrow> False | Some c \<Rightarrow> tokens c \<noteq> None)
   \<and> modelMaxToken I i s =
     (case getModelCardById I i s of
        None \<Rightarrow> 0
      | Some c \<Rightarrow> (case tokens c of None \<Rightarrow> 0 | Some n \<Rightarrow> n))"
  by (simp add: isModelEnabledFunctionCall_def isModelHasMaxToken_def modelMaxToken_def
      orBool_def orZero_def split: option.splits bool.splits)

text \<open>
  C9: for every model id that contains the substring \<^verbatim>\<open>vision\<close> and every store state,
  \<^verbatim>\<open>isModelEnabledVision\<close> is true, whether or not a card with that id exists, and so
  \<^verbatim>\<open>isModelEnabledUpload\<close> is true as well.
\<close>

theorem vision_in_id_enables_vision_and_upload:
  assumes "i = pre @ ''vision'' @ post"
  shows "isModelEnabledVision I i s \<and> isModelEnabledUpload I i s = Some True"
proof -
  have "includes' i ''vision''" using assms includes'_iff by blast
  then have "isModelEnabledVision I i s"
    by (simp add: isModelEnabledVision_def orBool_def split: option.splits bool.splits)
  then show ?thesis by (simp add: isModelEnabledUpload_def)
qed

theorem vision_in_id_enables_vision_and_upload_witness:
  "getModelCardById exampleImports ''gpt-4-vision-preview'' exampleStore = None
   \<and> isModelEnabledVision exampleImports ''gpt-4-vision-preview'' exampleStore
   \<and> isModelEnabledUpload exampleImports ''gpt-4-vision-preview'' exampleStore = Some True"
proof -
  have h: "''gpt-4-vision-preview'' = ''gpt-4-'' @ ''vision'' @ ''-preview''" by simp
  have n: "getModelCardById exampleImports ''gpt-4-vision-preview'' exampleStore = None"
    by (simp add: example_defs)
  show ?thesis
    using n vision_in_id_enables_vision_and_upload [OF h, of exampleImports exampleStore]
    by simp
qed

subsection \<open>What the selectors read, and what they return when a configuration is absent\<close>

text \<open>
  C5: every selector is deterministic, its result depending on nothing but the snapshot of
  the state it is given. The selectors are functions of the imports and the state; of the
  state they read only \<^verbatim>\<open>s.serverConfig\<close> and what \<^verbatim>\<open>currentSettings\<close> and
  \<^verbatim>\<open>getProviderConfigById\<close> return on it. Two states that agree on these (in particular
  two equal states) give equal results for every selector and every argument.
\<close>

theorem selectors_depend_only_on_snapshot:
  assumes sc: "serverConfig s = serverConfig s'"
      and cs: "currentSettings I s = currentSettings I s'"
      and pc: "\<forall>provider. getProviderConfigById I provider s = getProviderConfigById I provider s'"
  shows "defaultModelProviderList I s = defaultModelProviderList I s'
       \<and> getDefaultModeProviderById I p s = getDefaultModeProviderById I p s'
       \<and> getDefaultEnabledModelsById I p s = getDefaultEnabledModelsById I p s'
       \<and> getDefaultModelCardById I i s = getDefaultModelCardById I i s'
       \<and> getEnableModelsById I p s = getEnableModelsById I p s'
       \<and> getModelCardById I i s = getModelCardById I i s'
       \<and> getModelCardsById I p s = getModelCardsById I p s'
       \<and> isModelEnabledFiles I i s = isModelEnabledFiles I i s'
       \<and> isModelEnabledFunctionCall I i s = isModelEnabledFunctionCall I i s'
       \<and> isModelEnabledUpload I i s = isModelEnabledUpload I i s'
       \<and> isModelEnabledVision I i s = isModelEnabledVision I i s'
       \<and> isModelHasMaxToken I i s = isModelHasMaxToken I i s'
       \<and> modelMaxToken I i s = modelMaxToken I i s'
       \<and> modelProviderList I s = modelProviderList I s'
       \<and> modelProviderListForModelSelect I s = modelProviderListForModelSelect I s'"
proof -
  have srv: "serverProviderModelCards q s = serverProviderModelCards q s'" for q
    by (simp add: serverProviderModelCards_def sc)
  have rem: "remoteProviderModelCards I q s = remoteProviderModelCards I q s'" for q
    by (simp add: remoteProviderModelCards_def cs)
  have mrg: "mergeModels I s q d = mergeModels I s' q d" for q d
    by (simp add: mergeModels_def srv rem)
  have dl: "defaultModelProviderList I s = defaultModelProviderList I s'"
    by (simp add: defaultModelProviderList_def mrg)
  have dp: "getDefaultModeProviderById I q s = getDefaultModeProviderById I q s'" for q
    by (simp add: getDefaultModeProviderById_def dl)
  have de: "getDefaultEnabledModelsById I q s = getDefaultEnabledModelsById I q s'" for q
    by (simp add: getDefaultEnabledModelsById_def dp)
  have dc: "getDefaultModelCardById I j s = getDefaultModelCardById I j s'" for j
    by (simp add: getDefaultModelCardById_def dl)
  have en: "getEnableModelsById I q s = getEnableModelsById I q s'" for q
    by (simp add: getEnableModelsById_def pc)
  have pe: "isProviderEnabled I q s = isProviderEnabled I q s'" for q
    by (simp add: isProviderEnabled_def pc)
  have mc: "getModelCardsById I q s = getModelCardsById I q s'" for q
    by (simp add: getModelCardsById_def dp pc)
  have pl: "modelProviderList I s = modelProviderList I s'"
    by (simp add: modelProviderList_def dl en pe mc)
  have ps: "modelProviderListForModelSelect I s = modelProviderListForModelSelect I s'"
    by (simp add: modelProviderListForModelSelect_def pl)
  have gc: "getModelCardById I j s = getModelCardById I j s'" for j
    by (simp add: getModelCardById_def pl)
  have fi: "isModelEnabledFiles I j s = isModelEnabledFiles I j s'" for j
    by (simp add: isModelEnabledFiles_def gc)
  have fc: "isModelEnabledFunctionCall I j s = isModelEnabledFunctionCall I j s'" for j
    by (simp add: isModelEnabledFunctionCall_def gc)
  have vi: "isModelEnabledVision I j s = isModelEnabledVision I j s'" for j
    by (simp add: isModelEnabledVision_def gc)
  have up: "isModelEnabledUpload I j s = isModelEnabledUpload I j s'" for j
    by (simp add: isModelEnabledUpload_def vi fi)
  have ht: "isModelHasMaxToken I j s = isModelHasMaxToken I j s'" for j
    by (simp add: isModelHasMaxToken_def gc)
  have mt: "modelMaxToken I j s = modelMaxToken I j s'" for j
    by (simp add: modelMaxToken_def gc)
  show ?thesis
    using dl dp de dc en gc mc fi fc up vi ht mt pl ps by simp
qed

theorem selectors_depend_only_on_snapshot_witness:
  "exampleStoreWith (0::nat) \<noteq> exampleStoreWith (1::nat)
   \<and> modelProviderList exampleImports (exampleStoreWith (0::nat))
       = modelProviderList exampleImports (exampleStoreWith (1::nat))
   \<and> getModelCardsById exampleImports ''openai'' (exampleStoreWith (0::nat))
       = getModelCardsById exampleImports ''openai'' (exampleStoreWith (1::nat))
   \<and> modelMaxToken exampleImports ''gpt-3.5-turbo'' (exampleStoreWith (0::nat))
       = modelMaxToken exampleImports ''gpt-3.5-turbo'' (exampleStoreWith (1::nat))"
proof -
  have sc: "serverConfig (exampleStoreWith (0::nat)) = serverConfig (exampleStoreWith (1::nat))"
    by (simp add: exampleStoreWith_def)
  have cs: "currentSettings exampleImports (exampleStoreWith (0::nat))
              = currentSettings exampleImports (exampleStoreWith (1::nat))"
    by (simp add: exampleStoreWith_def exampleImports_def)
  have pc: "\<forall>provider. getProviderConfigById exampleImports provider (exampleStoreWith (0::nat))
              = getProviderConfigById exampleImports provider (exampleStoreWith (1::nat))"
    by (simp add: exampleStoreWith_def exampleImports_def)
  have ne: "exampleStoreWith (0::nat) \<noteq> exampleStoreWith (1::nat)"
    by (simp add: exampleStoreWith_def)
  show ?thesis
    using ne selectors_depend_only_on_snapshot
      [OF sc cs pc, of "''openai''" "''gpt-3.5-turbo''"]
    by simp
qed


lemma bindE_Inl: "bindE (Inl e) f = Inl e"
  by (simp add: bindE_def)


















end
